theory Spec2Isabelle
  imports Main "HOL-Library.Word"
begin

section \<open>The traceroute program rt: data\<close>

text \<open>
  The program is one Go file, main.go. Its flags are read once; the controller
  \<open>startTrace\<close> sends UDP probes hop by hop and waits for the listener
  \<open>listenICMP\<close> to hand it decoded ICMP datagrams over a channel.

  Go's \<open>int\<close> (64 bits) is read as a mathematical integer: the counters of the
  program start at a flag's value and move by one. The narrowing conversions
  \<open>int32(seqNum)\<close> and \<open>int32(ttl)\<close> of the source are kept: the fields of a
  \<open>tracePacket\<close> are 32-bit words, the timestamp a 64-bit word.
\<close>

type_synonym byte = "8 word"

record config =
  debugF :: bool
  ttlF :: int
  hopsF :: int
  portF :: int
  probesF :: int

definition dataBytesLen :: nat where
  "dataBytesLen = 16"

definition readBufSize :: nat where
  "readBufSize = 1024"

definition probeTimeout :: int where
  "probeTimeout = 5"

text \<open>\<open>time.Second\<close>, a \<open>time.Duration\<close>: nanoseconds.\<close>

definition Second :: int where
  "Second = 1000000000"

record tracePacket =
  seqNum :: "32 word"
  ttl :: "32 word"
  ts :: "64 word"

record probeInfo =
  routerIP :: "byte list"
  routerName :: string
  icmpType :: int
  icmpCode :: int

datatype error =
    IndexOutOfRange nat nat
  | DialError
  | SetTTLError

section \<open>Packet codec\<close>

text \<open>
  \<open>net.IPv4(a, b, c, d)\<close> returns the 16-byte form of the address: the
  IPv4-in-IPv6 prefix, then the four bytes.
\<close>

definition v4InV6Prefix :: "byte list" where
  "v4InV6Prefix = [0, 0, 0, 0, 0, 0, 0, 0, 0, 0, 255, 255]"

definition IPv4 :: "byte \<Rightarrow> byte \<Rightarrow> byte \<Rightarrow> byte \<Rightarrow> byte list" where
  "IPv4 a b c d = v4InV6Prefix @ [a, b, c, d]"

text \<open>Indexing a slice: Go panics when the index is not below the length.\<close>

definition index :: "byte list \<Rightarrow> nat \<Rightarrow> error + byte" where
  "index buf i = (if i < length buf then Inr (buf ! i) else Inl (IndexOutOfRange i (length buf)))"

definition bind :: "error + 'a \<Rightarrow> ('a \<Rightarrow> error + 'b) \<Rightarrow> error + 'b" where
  "bind m f = (case m of Inl e \<Rightarrow> Inl e | Inr x \<Rightarrow> f x)"

text \<open>Decimal digits of a natural number, as \<open>%d\<close> and \<open>IP.String\<close> print them.\<close>

function decimal :: "nat \<Rightarrow> string" where
  "decimal n =
     (if n < 10 then [''0123456789'' ! n]
      else decimal (n div 10) @ [''0123456789'' ! (n mod 10)])"
  by pat_completeness auto
termination
  by (relation "measure (\<lambda>n. n)") auto

text \<open>
  \<open>IP.String()\<close> on an address made by \<open>net.IPv4\<close>: the dotted decimal form
  of its last four bytes.
\<close>

definition ipString :: "byte list \<Rightarrow> string" where
  "ipString ip =
     decimal (unat (ip ! 12)) @ ''.'' @ decimal (unat (ip ! 13)) @ ''.'' @
     decimal (unat (ip ! 14)) @ ''.'' @ decimal (unat (ip ! 15))"

text \<open>
  \<open>newProbeInfo\<close>. The reverse lookup \<open>net.LookupAddr\<close> is the environment's: a
  function from the printed address to the names found (none when it fails; the
  source drops its error). The element reads are evaluated in the source's order,
  so the first index out of range is the one the panic reports.
\<close>

definition newProbeInfo :: "(string \<Rightarrow> string list) \<Rightarrow> byte list \<Rightarrow> error + probeInfo" where
  "newProbeInfo lookupAddr buf =
     bind (index buf 12) (\<lambda>b12.
     bind (index buf 13) (\<lambda>b13.
     bind (index buf 14) (\<lambda>b14.
     bind (index buf 15) (\<lambda>b15.
     bind (index buf 20) (\<lambda>b20.
     bind (index buf 21) (\<lambda>b21.
       let ip = IPv4 b12 b13 b14 b15;
           names = lookupAddr (ipString ip)
       in Inr \<lparr>routerIP = ip,
               routerName = (case names of [] \<Rightarrow> [] | n # _ \<Rightarrow> n),
               icmpType = uint b20,
               icmpCode = uint b21\<rparr>))))))"

definition isPortUnreachable :: "probeInfo \<Rightarrow> bool" where
  "isPortUnreachable pInfo = (if icmpType pInfo = 3 \<and> icmpCode pInfo = 3 then True else False)"

definition getTracePacketData :: "tracePacket \<Rightarrow> byte list" where
  "getTracePacketData data =
     (replicate dataBytesLen 0)[0 := 1, 1 := 2, 2 := 3, 3 := 4, 4 := 5]"

section \<open>Responder listener\<close>

text \<open>
  One turn of the loop of \<open>listenICMP\<close>: a fresh buffer of \<open>readBufSize\<close> zero
  bytes, \<open>conn.Read\<close> into it (the count of bytes read is dropped by the source),
  then the decoding of the whole buffer. A read error is logged and the loop goes
  on; a decoded response is sent on the channel; a panic of the decoder ends the
  program.
\<close>

datatype readResult = ReadErr | Datagram "byte list"

datatype listenerStep = LogAndContinue | Publish probeInfo | Panic error

definition readBuf :: "byte list \<Rightarrow> byte list" where
  "readBuf dgram = take readBufSize dgram @ replicate (readBufSize - length dgram) 0"

definition listenStep :: "(string \<Rightarrow> string list) \<Rightarrow> readResult \<Rightarrow> listenerStep" where
  "listenStep lookupAddr r =
     (case r of
        ReadErr \<Rightarrow> LogAndContinue
      | Datagram dgram \<Rightarrow>
          (case newProbeInfo lookupAddr (readBuf dgram) of
             Inl e \<Rightarrow> Panic e
           | Inr pInfo \<Rightarrow> Publish pInfo))"

section \<open>Prober and trace controller\<close>

text \<open>
  What the world does to the probe \<open>pro\<close> of the hop \<open>t\<close> is the
  environment's: whether the dial and the setting of the TTL succeed, what the
  clock reads when the packet is built, and whether the write fails, nothing
  arrives within the timeout, or the channel delivers a decoded response at a
  later clock reading.
\<close>

datatype connectOutcome = DialErr | SetTTLErr | ConnOK

datatype sendOutcome = WriteErr | Timeout | Response probeInfo "64 word"

record world =
  dial :: "int \<Rightarrow> int \<Rightarrow> connectOutcome"
  now :: "int \<Rightarrow> int \<Rightarrow> 64 word"
  send :: "int \<Rightarrow> int \<Rightarrow> sendOutcome"

record udpConn =
  raddrPort :: int
  connTTL :: "int option"

text \<open>
  \<open>connectUDP\<close> returns the connection or the error, and the sockets it has
  opened: a socket whose TTL option cannot be set is returned as nil by the source
  and stays open. \<open>net.DialUDP\<close> refuses a port outside 0..65535 whatever
  the network would answer: the connect call rejects a socket address whose port
  is negative or above 0xFFFF with an "invalid argument" error, and the socket
  made for it is closed again by the library.
\<close>

definition connectUDP :: "connectOutcome \<Rightarrow> int \<Rightarrow> int \<Rightarrow> (error + udpConn) \<times> udpConn list" where
  "connectUDP oc p t =
     (if p < 0 \<or> 65535 < p then (Inl DialError, [])
      else case oc of
        DialErr \<Rightarrow> (Inl DialError, [])
      | SetTTLErr \<Rightarrow> (Inl SetTTLError, [\<lparr>raddrPort = p, connTTL = None\<rparr>])
      | ConnOK \<Rightarrow>
          (Inr \<lparr>raddrPort = p, connTTL = Some t\<rparr>, [\<lparr>raddrPort = p, connTTL = Some t\<rparr>]))"

text \<open>What the program writes to standard output and to its log.\<close>

datatype event =
    PrintTTL int
  | PrintRouterIP string string
  | PrintLatency "64 word"
  | PrintStar
  | PrintLn
  | LogError string

text \<open>
  \<open>printRouterIP\<close>: the name if there is one, else the address; then the
  address in parentheses.
\<close>

definition printRouterIP :: "probeInfo \<Rightarrow> event" where
  "printRouterIP pInfo =
     (let routerAddr = ipString (routerIP pInfo)
      in if routerName pInfo \<noteq> [] then PrintRouterIP (routerName pInfo) routerAddr
         else PrintRouterIP routerAddr routerAddr)"

text \<open>
  The history of a run: one entry for each turn of the inner loop of
  \<open>startTrace\<close>, with the arguments of its call of \<open>connectUDP\<close>, the packet
  built, the bytes written, the timer armed and what the turn printed.
\<close>

datatype result = ConnectFailed error | SendFailed | TimedOut | Answered probeInfo

record attempt =
  a_ttl :: int
  a_pro :: int
  a_port :: int
  a_result :: result
  a_packet :: "tracePacket option"
  a_data :: "byte list option"
  a_timer :: "int option"
  a_debug :: bool
  a_out :: "event list"

text \<open>
  The variables of \<open>startTrace\<close>, the output so far, the history, and the UDP
  sockets that are open: the source has no call of \<open>Close\<close>, so none is ever
  taken out.
\<close>

record trace =
  portV :: int
  seqNumV :: int
  doneV :: bool
  attempts :: "attempt list"
  out :: "event list"
  sockets :: "udpConn list"

definition finish :: "attempt \<Rightarrow> trace \<Rightarrow> trace" where
  "finish a s = s\<lparr>attempts := attempts s @ [a], out := out s @ a_out a\<rparr>"

text \<open>One turn of the inner loop: the probe \<open>pro\<close> of the hop \<open>t\<close>.\<close>

definition probe :: "config \<Rightarrow> world \<Rightarrow> int \<Rightarrow> int \<Rightarrow> trace \<Rightarrow> trace" where
  "probe cfg env t pro s =
     (case connectUDP (dial env t pro) (portV s) t of
        (Inl err, opened) \<Rightarrow>
          finish \<lparr>a_ttl = t, a_pro = pro, a_port = portV s, a_result = ConnectFailed err,
                  a_packet = None, a_data = None, a_timer = None, a_debug = False,
                  a_out = [LogError ''error connecting'']\<rparr>
            (s\<lparr>sockets := sockets s @ opened\<rparr>)
      | (Inr udpConn, opened) \<Rightarrow>
          (let s1 = s\<lparr>sockets := sockets s @ opened,
                       seqNumV := seqNumV s + 1, portV := portV s + 1\<rparr>;
               d = \<lparr>seqNum = word_of_int (seqNumV s1), ttl = word_of_int t,
                    ts = now env t pro\<rparr>;
               startTS = ts d;
               a = \<lparr>a_ttl = t, a_pro = pro, a_port = portV s, a_result = SendFailed,
                    a_packet = Some d, a_data = Some (getTracePacketData d), a_timer = None,
                    a_debug = debugF cfg, a_out = [LogError ''error sending data'']\<rparr>
           in case send env t pro of
                WriteErr \<Rightarrow> finish a s1
              | Timeout \<Rightarrow>
                  finish (a\<lparr>a_result := TimedOut, a_timer := Some (probeTimeout * Second),
                            a_out := [PrintStar]\<rparr>) s1
              | Response pInfo endTS \<Rightarrow>
                  finish (a\<lparr>a_result := Answered pInfo,
                            a_timer := Some (probeTimeout * Second),
                            a_out := (if pro = 0 then [printRouterIP pInfo] else []) @
                                     [PrintLatency (endTS - startTS)]\<rparr>)
                    (if isPortUnreachable pInfo then s1\<lparr>doneV := True\<rparr> else s1)))"

text \<open>The inner loop, \<open>for pro := 0; pro < *probesF; pro++\<close>, from \<open>pro\<close> on.\<close>

function probesFrom :: "config \<Rightarrow> world \<Rightarrow> int \<Rightarrow> int \<Rightarrow> trace \<Rightarrow> trace" where
  "probesFrom cfg env t pro s =
     (if pro < probesF cfg then probesFrom cfg env t (pro + 1) (probe cfg env t pro s)
      else s)"
  by pat_completeness auto
termination
  by (relation "measure (\<lambda>(cfg, env, t, pro, s). nat (probesF cfg - pro))") auto

text \<open>One hop: the TTL is printed, the probes are sent, the line is ended.\<close>

definition hop :: "config \<Rightarrow> world \<Rightarrow> int \<Rightarrow> trace \<Rightarrow> trace" where
  "hop cfg env t s =
     (let s1 = probesFrom cfg env t 0 (s\<lparr>out := out s @ [PrintTTL t]\<rparr>)
      in s1\<lparr>out := out s1 @ [PrintLn]\<rparr>)"

text \<open>
  The outer loop, \<open>for ttl := *ttlF; ttl <= *hopsF; ttl++\<close>, from \<open>t\<close> on, with
  its \<open>break\<close> when \<open>done\<close> is set.
\<close>

function traceFrom :: "config \<Rightarrow> world \<Rightarrow> int \<Rightarrow> trace \<Rightarrow> trace" where
  "traceFrom cfg env t s =
     (if t \<le> hopsF cfg then
        (if doneV s then s else traceFrom cfg env (t + 1) (hop cfg env t s))
      else s)"
  by pat_completeness auto
termination
  by (relation "measure (\<lambda>(cfg, env, t, s). nat (hopsF cfg + 1 - t))") auto

definition startTrace :: "config \<Rightarrow> world \<Rightarrow> trace" where
  "startTrace cfg env =
     traceFrom cfg env (ttlF cfg)
       \<lparr>portV = portF cfg, seqNumV = 0, doneV = False, attempts = [], out = [], sockets = []\<rparr>"

text \<open>Readings of the history.\<close>

definition packets :: "attempt list \<Rightarrow> tracePacket list" where
  "packets as = concat (map (\<lambda>a. case a_packet a of None \<Rightarrow> [] | Some d \<Rightarrow> [d]) as)"

definition unreachable :: "attempt \<Rightarrow> bool" where
  "unreachable a = (case a_result a of Answered pInfo \<Rightarrow> isPortUnreachable pInfo | _ \<Rightarrow> False)"

definition dialed :: "attempt \<Rightarrow> bool" where
  "dialed a = (a_result a \<noteq> ConnectFailed DialError)"

definition built :: "attempt \<Rightarrow> bool" where
  "built a = (a_packet a \<noteq> None)"

definition isRouterIP :: "event \<Rightarrow> bool" where
  "isRouterIP e = (case e of PrintRouterIP who addr \<Rightarrow> True | _ \<Rightarrow> False)"

text \<open>The entry that the probe \<open>pro\<close> of the hop \<open>t\<close> adds to the history.\<close>

definition probeAttempt :: "config \<Rightarrow> world \<Rightarrow> int \<Rightarrow> int \<Rightarrow> trace \<Rightarrow> attempt" where
  "probeAttempt cfg env t pro s = last (attempts (probe cfg env t pro s))"

text \<open>
  The probe indices tried at the TTL \<open>u\<close>, in order, and whether a
  port-unreachable response was received on a hop before \<open>u\<close>.
\<close>

definition hopPros :: "int \<Rightarrow> attempt list \<Rightarrow> int list" where
  "hopPros u as = map a_pro (filter (\<lambda>a. a_ttl a = u) as)"

definition firedBefore :: "int \<Rightarrow> attempt list \<Rightarrow> bool" where
  "firedBefore u as = (\<exists>a \<in> set as. a_ttl a < u \<and> unreachable a)"

text \<open>
  What ties the counters of \<open>startTrace\<close> to its history: the port is the base
  port plus the sequence number, the sequence number counts the packets built,
  a packet was only built for a port that \<open>net.DialUDP\<close> accepts, the packet
  number \<open>k\<close> (from 0) carries \<open>int32(k + 1)\<close>, and the port of each attempt is the
  base port plus the number of packets built before it.
\<close>

definition seqInv :: "config \<Rightarrow> trace \<Rightarrow> bool" where
  "seqInv cfg s \<longleftrightarrow>
     portV s = portF cfg + seqNumV s \<and>
     seqNumV s = int (length (packets (attempts s))) \<and>
     (0 < seqNumV s \<longrightarrow> 0 \<le> portF cfg \<and> portV s \<le> 65536) \<and>
     (\<forall>k < length (packets (attempts s)).
        seqNum (packets (attempts s) ! k) = word_of_int (int k + 1)) \<and>
     (\<forall>n < length (attempts s).
        a_port (attempts s ! n) = portF cfg + int (length (filter built (take n (attempts s)))))"

section \<open>Sample runs\<close>

text \<open>
  The defaults of the flags, two shorter runs of two probes a hop, a reverse
  lookup that finds no name, and a few worlds: one where no probe is answered; a
  router that answers with "time exceeded" (type 11, code 0); a world where the
  first probe of each hop is lost and the later ones are answered by that router;
  a world where the first dial fails; the destination itself, which answers with
  "port unreachable" (type 3, code 3).
\<close>

definition defaults :: config where
  "defaults = \<lparr>debugF = False, ttlF = 1, hopsF = 30, portF = 34500, probesF = 3\<rparr>"

definition oneHop :: config where
  "oneHop = defaults\<lparr>hopsF := 1, probesF := 2\<rparr>"

definition threeHops :: config where
  "threeHops = defaults\<lparr>hopsF := 3, probesF := 2\<rparr>"

definition noNames :: "string \<Rightarrow> string list" where
  "noNames addr = []"

definition silent :: world where
  "silent = \<lparr>dial = (\<lambda>t pro. ConnOK), now = (\<lambda>t pro. 0), send = (\<lambda>t pro. Timeout)\<rparr>"

definition router :: probeInfo where
  "router = \<lparr>routerIP = IPv4 10 0 0 1, routerName = [], icmpType = 11, icmpCode = 0\<rparr>"

definition destination :: probeInfo where
  "destination = \<lparr>routerIP = IPv4 93 184 216 34, routerName = ''example.org'',
                   icmpType = 3, icmpCode = 3\<rparr>"

definition firstLost :: world where
  "firstLost = \<lparr>dial = (\<lambda>t pro. ConnOK), now = (\<lambda>t pro. 0),
                 send = (\<lambda>t pro. if pro = 0 then Timeout else Response router 7)\<rparr>"

definition firstDialFails :: world where
  "firstDialFails = \<lparr>dial = (\<lambda>t pro. if t = 1 \<and> pro = 0 then DialErr else ConnOK),
                      now = (\<lambda>t pro. 0), send = (\<lambda>t pro. Timeout)\<rparr>"

definition reached :: world where
  "reached = \<lparr>dial = (\<lambda>t pro. ConnOK), now = (\<lambda>t pro. 0),
               send = (\<lambda>t pro. if t = 1 then Response router 7
                                else if pro = 0 then Response destination 9 else Timeout)\<rparr>"

section \<open>Properties of the codec\<close>

lemma getTracePacketData_bytes:
  "getTracePacketData d = [1, 2, 3, 4, 5, 0, 0, 0, 0, 0, 0, 0, 0, 0, 0, 0]"
  by (simp add: getTracePacketData_def dataBytesLen_def numeral_eq_Suc)

text \<open>
  C9. The probe payload is a constant: whatever the sequence number, TTL and
  timestamp of two probes, their payloads are the same 16 bytes, 1 2 3 4 5 and
  eleven zeros.
\<close>

theorem payload_constant:
  "getTracePacketData d1 = getTracePacketData d2 \<and>
   length (getTracePacketData d1) = 16 \<and>
   take 5 (getTracePacketData d1) = [1, 2, 3, 4, 5] \<and>
   drop 5 (getTracePacketData d1) = replicate 11 0"
  by (simp add: getTracePacketData_bytes numeral_eq_Suc)

lemma readBuf_length: "length (readBuf dgram) = 1024"
  by (simp add: readBuf_def readBufSize_def)

lemma newProbeInfo_long:
  "22 \<le> length buf \<Longrightarrow>
   newProbeInfo lookupAddr buf =
     Inr \<lparr>routerIP = IPv4 (buf ! 12) (buf ! 13) (buf ! 14) (buf ! 15),
          routerName = (case lookupAddr (ipString (IPv4 (buf ! 12) (buf ! 13) (buf ! 14) (buf ! 15)))
                        of [] \<Rightarrow> [] | n # _ \<Rightarrow> n),
          icmpType = uint (buf ! 20), icmpCode = uint (buf ! 21)\<rparr>"
  by (simp add: newProbeInfo_def index_def bind_def Let_def)



text \<open>
  C4, as the code has it. The claim asks that a malformed or short datagram be a
  decode failure that the caller logs and discards. The decoder has no failure
  value, and the listener always hands it the whole 1024-byte buffer: whatever
  the datagram, of any length, the decoding succeeds and the result is published
  on the channel; the listener never crashes, and only a read error is logged and
  skipped. A datagram shorter than 22 bytes is decoded from the zero bytes the
  buffer was made with.
\<close>

theorem listener_always_publishes:
  "listenStep lookupAddr ReadErr = LogAndContinue \<and>
   (\<exists>pInfo. newProbeInfo lookupAddr (readBuf dgram) = Inr pInfo \<and>
      listenStep lookupAddr (Datagram dgram) = Publish pInfo)"
  by (simp add: listenStep_def newProbeInfo_long readBuf_length)

text \<open>
  The claim C4 fails on a datagram of three bytes: the listener publishes a
  response from 0.0.0.0 with type 0 and code 0 instead of discarding it, and the
  decoder alone, on the three bytes, panics at index 12.
\<close>

theorem short_datagram_counterexample:
  "listenStep noNames (Datagram [1, 2, 3]) =
     Publish \<lparr>routerIP = IPv4 0 0 0 0, routerName = [], icmpType = 0, icmpCode = 0\<rparr> \<and>
   newProbeInfo noNames [1, 2, 3] = Inl (IndexOutOfRange 12 3)"
  by (simp add: listenStep_def newProbeInfo_def readBuf_def readBufSize_def index_def bind_def
      noNames_def nth_append)

section \<open>One probe\<close>

declare probesFrom.simps [simp del] traceFrom.simps [simp del] decimal.simps [simp del]

lemma probe_attempts:
  "attempts (probe cfg env t pro s) = attempts s @ [probeAttempt cfg env t pro s]"
  by (simp add: probeAttempt_def probe_def finish_def Let_def
      split: prod.splits sum.splits sendOutcome.splits)

lemma probe_out:
  "out (probe cfg env t pro s) = out s @ a_out (probeAttempt cfg env t pro s)"
  by (simp add: probeAttempt_def probe_def finish_def Let_def
      split: prod.splits sum.splits sendOutcome.splits)

lemma probeAttempt_pos:
  "a_ttl (probeAttempt cfg env t pro s) = t"
  "a_pro (probeAttempt cfg env t pro s) = pro"
  "a_port (probeAttempt cfg env t pro s) = portV s"
  by (simp_all add: probeAttempt_def probe_def finish_def Let_def
      split: prod.splits sum.splits sendOutcome.splits)


lemma probe_counters:
  "portV (probe cfg env t pro s) =
     (if built (probeAttempt cfg env t pro s) then portV s + 1 else portV s)"
  "seqNumV (probe cfg env t pro s) =
     (if built (probeAttempt cfg env t pro s) then seqNumV s + 1 else seqNumV s)"
  by (auto simp add: probeAttempt_def probe_def finish_def Let_def built_def
      split: prod.splits sum.splits sendOutcome.splits)

lemma probe_built:
  "built (probeAttempt cfg env t pro s) \<Longrightarrow> 0 \<le> portV s \<and> portV s \<le> 65535"
  by (auto simp add: probeAttempt_def probe_def finish_def Let_def built_def connectUDP_def
      split: prod.splits sum.splits sendOutcome.splits if_splits)

lemma probe_packet:
  "a_packet (probeAttempt cfg env t pro s) = Some d \<Longrightarrow> seqNum d = word_of_int (seqNumV s + 1)"
  by (auto simp add: probeAttempt_def probe_def finish_def Let_def built_def connectUDP_def
      split: prod.splits sum.splits sendOutcome.splits if_splits)

lemma probe_sockets:
  "length (sockets (probe cfg env t pro s)) =
     length (sockets s) + (if dialed (probeAttempt cfg env t pro s) then 1 else 0)"
  by (auto simp add: probeAttempt_def probe_def finish_def Let_def dialed_def connectUDP_def
      split: prod.splits sum.splits sendOutcome.splits if_splits connectOutcome.splits)

lemma probeAttempt_timer:
  "a_timer (probeAttempt cfg env t pro s) =
     (case a_result (probeAttempt cfg env t pro s) of
        TimedOut \<Rightarrow> Some 5000000000 | Answered pInfo \<Rightarrow> Some 5000000000 | _ \<Rightarrow> None)"
  by (simp add: probeAttempt_def probe_def finish_def Let_def probeTimeout_def Second_def
      split: prod.splits sum.splits sendOutcome.splits)

lemma probeAttempt_out:
  "filter isRouterIP (a_out (probeAttempt cfg env t pro s)) =
     (case a_result (probeAttempt cfg env t pro s) of
        Answered pInfo \<Rightarrow>
          if a_pro (probeAttempt cfg env t pro s) = 0 then [printRouterIP pInfo] else []
      | _ \<Rightarrow> [])"
  by (simp add: probeAttempt_def probe_def finish_def Let_def isRouterIP_def printRouterIP_def
      split: prod.splits sum.splits sendOutcome.splits)

section \<open>Invariants of the loops\<close>

text \<open>
  A property of the state that every probe keeps, and that the printing of the
  TTL and of the end of line keep, holds when the run ends.
\<close>

lemma probesFrom_invariant:
  "P s \<Longrightarrow> (\<forall>t pro s. P s \<longrightarrow> P (probe cfg env t pro s)) \<Longrightarrow> P (probesFrom cfg env t pro s)"
proof (induction cfg env t pro s rule: probesFrom.induct)
  case (1 cfg env t pro s)
  show ?case
  proof (cases "pro < probesF cfg")
    case True
    from 1(2,3) have "P (probe cfg env t pro s)" by blast
    with 1(1) [OF True] 1(3) have "P (probesFrom cfg env t (pro + 1) (probe cfg env t pro s))"
      by blast
    with True show ?thesis by (subst probesFrom.simps) simp
  next
    case False
    with 1(2) show ?thesis by (subst probesFrom.simps) simp
  qed
qed

lemma traceFrom_invariant:
  "P s \<Longrightarrow> (\<forall>t pro s. P s \<longrightarrow> P (probe cfg env t pro s)) \<Longrightarrow>
   (\<forall>s t. P s \<longrightarrow> P (s\<lparr>out := out s @ [PrintTTL t]\<rparr>)) \<Longrightarrow>
   (\<forall>s. P s \<longrightarrow> P (s\<lparr>out := out s @ [PrintLn]\<rparr>)) \<Longrightarrow> P (traceFrom cfg env t s)"
proof (induction cfg env t s rule: traceFrom.induct)
  case (1 cfg env t s)
  show ?case
  proof (cases "t \<le> hopsF cfg \<and> \<not> doneV s")
    case True
    from 1(2,4) have "P (s\<lparr>out := out s @ [PrintTTL t]\<rparr>)" by blast
    then have "P (probesFrom cfg env t 0 (s\<lparr>out := out s @ [PrintTTL t]\<rparr>))"
      using 1(3) by (rule probesFrom_invariant)
    with 1(5) have "P (hop cfg env t s)" by (simp add: hop_def Let_def)
    with 1(1) 1(3,4,5) True have "P (traceFrom cfg env (t + 1) (hop cfg env t s))" by blast
    with True show ?thesis by (subst traceFrom.simps) simp
  next
    case False
    with 1(2) show ?thesis by (subst traceFrom.simps) auto
  qed
qed

lemma startTrace_invariant:
  "P \<lparr>portV = portF cfg, seqNumV = 0, doneV = False, attempts = [], out = [], sockets = []\<rparr> \<Longrightarrow>
   (\<forall>t pro s. P s \<longrightarrow> P (probe cfg env t pro s)) \<Longrightarrow>
   (\<forall>s t. P s \<longrightarrow> P (s\<lparr>out := out s @ [PrintTTL t]\<rparr>)) \<Longrightarrow>
   (\<forall>s. P s \<longrightarrow> P (s\<lparr>out := out s @ [PrintLn]\<rparr>)) \<Longrightarrow> P (startTrace cfg env)"
  unfolding startTrace_def by (rule traceFrom_invariant)

lemma attempts_invariant:
  assumes "\<And>t pro s. Q (probeAttempt cfg env t pro s)"
  shows "\<forall>a \<in> set (attempts (startTrace cfg env)). Q a"
  by (rule startTrace_invariant [where P = "\<lambda>s. \<forall>a \<in> set (attempts s). Q a"])
     (simp_all add: probe_attempts assms)

section \<open>The hops of a run\<close>



lemma hopPros_append [simp]: "hopPros u (xs @ ys) = hopPros u xs @ hopPros u ys"
  by (simp add: hopPros_def)

lemma firedBefore_append [simp]:
  "firedBefore u (xs @ ys) = (firedBefore u xs \<or> firedBefore u ys)"
  by (auto simp add: firedBefore_def)







section \<open>Sample runs, evaluated\<close>

lemmas run_simps = startTrace_def traceFrom.simps hop_def probesFrom.simps probe_def
  connectUDP_def finish_def Let_def defaults_def oneHop_def threeHops_def
  probeTimeout_def Second_def getTracePacketData_bytes isPortUnreachable_def

lemma ipString_router: "ipString (IPv4 10 0 0 1) = ''10.0.0.1''"
  by (simp add: ipString_def IPv4_def v4InV6Prefix_def decimal.simps)

lemma ipString_destination: "ipString (IPv4 93 184 216 34) = ''93.184.216.34''"
  by (simp add: ipString_def IPv4_def v4InV6Prefix_def decimal.simps)

lemma reached_attempts:
  "attempts (startTrace threeHops reached) =
     [\<lparr>a_ttl = 1, a_pro = 0, a_port = 34500, a_result = Answered router,
       a_packet = Some \<lparr>seqNum = 1, ttl = 1, ts = 0\<rparr>,
       a_data = Some [1, 2, 3, 4, 5, 0, 0, 0, 0, 0, 0, 0, 0, 0, 0, 0],
       a_timer = Some 5000000000, a_debug = False,
       a_out = [PrintRouterIP ''10.0.0.1'' ''10.0.0.1'', PrintLatency 7]\<rparr>,
      \<lparr>a_ttl = 1, a_pro = 1, a_port = 34501, a_result = Answered router,
       a_packet = Some \<lparr>seqNum = 2, ttl = 1, ts = 0\<rparr>,
       a_data = Some [1, 2, 3, 4, 5, 0, 0, 0, 0, 0, 0, 0, 0, 0, 0, 0],
       a_timer = Some 5000000000, a_debug = False, a_out = [PrintLatency 7]\<rparr>,
      \<lparr>a_ttl = 2, a_pro = 0, a_port = 34502, a_result = Answered destination,
       a_packet = Some \<lparr>seqNum = 3, ttl = 2, ts = 0\<rparr>,
       a_data = Some [1, 2, 3, 4, 5, 0, 0, 0, 0, 0, 0, 0, 0, 0, 0, 0],
       a_timer = Some 5000000000, a_debug = False,
       a_out = [PrintRouterIP ''example.org'' ''93.184.216.34'', PrintLatency 9]\<rparr>,
      \<lparr>a_ttl = 2, a_pro = 1, a_port = 34503, a_result = TimedOut,
       a_packet = Some \<lparr>seqNum = 4, ttl = 2, ts = 0\<rparr>,
       a_data = Some [1, 2, 3, 4, 5, 0, 0, 0, 0, 0, 0, 0, 0, 0, 0, 0],
       a_timer = Some 5000000000, a_debug = False, a_out = [PrintStar]\<rparr>]"
  by (simp add: run_simps reached_def router_def destination_def printRouterIP_def
      ipString_router ipString_destination)

lemma reached_out:
  "out (startTrace threeHops reached) =
     [PrintTTL 1, PrintRouterIP ''10.0.0.1'' ''10.0.0.1'', PrintLatency 7, PrintLatency 7, PrintLn,
      PrintTTL 2, PrintRouterIP ''example.org'' ''93.184.216.34'', PrintLatency 9, PrintStar,
      PrintLn]"
  by (simp add: run_simps reached_def router_def destination_def printRouterIP_def
      ipString_router ipString_destination)

lemma silent_attempts:
  "attempts (startTrace oneHop silent) =
     [\<lparr>a_ttl = 1, a_pro = 0, a_port = 34500, a_result = TimedOut,
       a_packet = Some \<lparr>seqNum = 1, ttl = 1, ts = 0\<rparr>,
       a_data = Some [1, 2, 3, 4, 5, 0, 0, 0, 0, 0, 0, 0, 0, 0, 0, 0],
       a_timer = Some 5000000000, a_debug = False, a_out = [PrintStar]\<rparr>,
      \<lparr>a_ttl = 1, a_pro = 1, a_port = 34501, a_result = TimedOut,
       a_packet = Some \<lparr>seqNum = 2, ttl = 1, ts = 0\<rparr>,
       a_data = Some [1, 2, 3, 4, 5, 0, 0, 0, 0, 0, 0, 0, 0, 0, 0, 0],
       a_timer = Some 5000000000, a_debug = False, a_out = [PrintStar]\<rparr>]"
  by (simp add: run_simps silent_def)

section \<open>Ports and sequence numbers\<close>

lemma packets_snoc:
  "packets (xs @ [a]) = packets xs @ (case a_packet a of None \<Rightarrow> [] | Some d \<Rightarrow> [d])"
  by (simp add: packets_def)

lemma length_filter_built: "length (filter built xs) = length (packets xs)"
  by (induction xs) (auto simp add: packets_def built_def split: option.splits)

lemma seqInv_probe:
  assumes "seqInv cfg s"
  shows "seqInv cfg (probe cfg env t pro s)"
proof -
  let ?a = "probeAttempt cfg env t pro s"
  let ?s1 = "probe cfg env t pro s"
  from assms have
    i1: "portV s = portF cfg + seqNumV s" and
    i2: "seqNumV s = int (length (packets (attempts s)))" and
    i3: "0 < seqNumV s \<longrightarrow> 0 \<le> portF cfg \<and> portV s \<le> 65536" and
    i4: "\<forall>k < length (packets (attempts s)).
        seqNum (packets (attempts s) ! k) = word_of_int (int k + 1)" and
    i5: "\<forall>n < length (attempts s).
        a_port (attempts s ! n) = portF cfg + int (length (filter built (take n (attempts s))))"
    unfolding seqInv_def by blast+
  have ports: "a_port (attempts ?s1 ! n) =
      portF cfg + int (length (filter built (take n (attempts ?s1))))"
    if "n < length (attempts ?s1)" for n
  proof (cases "n < length (attempts s)")
    case True
    with i5 show ?thesis by (simp add: probe_attempts nth_append)
  next
    case False
    with that have "n = length (attempts s)" by (simp add: probe_attempts)
    with i1 i2 show ?thesis
      by (simp add: probe_attempts nth_append probeAttempt_pos length_filter_built)
  qed
  show ?thesis
  proof (cases "built ?a")
    case False
    then have none: "a_packet ?a = None" by (simp add: built_def)
    have c: "portV ?s1 = portV s" "seqNumV ?s1 = seqNumV s"
        "packets (attempts ?s1) = packets (attempts s)"
      using False none by (simp_all add: probe_counters probe_attempts packets_snoc)
    show ?thesis
      unfolding seqInv_def c using i1 i2 i3 i4 ports by blast
  next
    case True
    then obtain d where d: "a_packet ?a = Some d" by (auto simp add: built_def)
    from True have rng: "0 \<le> portV s" "portV s \<le> 65535" using probe_built by blast+
    have sq: "seqNum d = word_of_int (seqNumV s + 1)" using d by (rule probe_packet)
    have c: "portV ?s1 = portV s + 1" "seqNumV ?s1 = seqNumV s + 1"
        "packets (attempts ?s1) = packets (attempts s) @ [d]"
      using True d by (simp_all add: probe_counters probe_attempts packets_snoc)
    have base: "0 \<le> portF cfg"
    proof (cases "0 < seqNumV s")
      case True
      with i3 show ?thesis by simp
    next
      case False
      with i2 have "seqNumV s = 0" by simp
      with i1 rng show ?thesis by simp
    qed
    have j1: "portV s + 1 = portF cfg + (seqNumV s + 1)" using i1 by simp
    have j2: "seqNumV s + 1 = int (length (packets (attempts s) @ [d]))" using i2 by simp
    have j3: "0 < seqNumV s + 1 \<longrightarrow> 0 \<le> portF cfg \<and> portV s + 1 \<le> 65536"
      using base rng by simp
    have j4: "\<forall>k < length (packets (attempts s) @ [d]).
        seqNum ((packets (attempts s) @ [d]) ! k) = word_of_int (int k + 1)"
    proof (intro allI impI)
      fix k assume "k < length (packets (attempts s) @ [d])"
      then consider "k < length (packets (attempts s))" | "k = length (packets (attempts s))"
        by fastforce
      then show "seqNum ((packets (attempts s) @ [d]) ! k) = word_of_int (int k + 1)"
      proof cases
        case 1
        with i4 show ?thesis by (simp add: nth_append)
      next
        case 2
        with sq i2 show ?thesis by (simp add: nth_append)
      qed
    qed
    show ?thesis
      unfolding seqInv_def c using j1 j2 j3 j4 ports by blast
  qed
qed

lemma seqInv_out: "seqInv cfg (s\<lparr>out := x\<rparr>) = seqInv cfg s"
  by (simp add: seqInv_def)

lemma seqInv_startTrace: "seqInv cfg (startTrace cfg env)"
proof (rule startTrace_invariant)
  show "seqInv cfg \<lparr>portV = portF cfg, seqNumV = 0, doneV = False, attempts = [], out = [],
      sockets = []\<rparr>"
    by (simp add: seqInv_def packets_def)
  show "\<forall>t pro s. seqInv cfg s \<longrightarrow> seqInv cfg (probe cfg env t pro s)"
    using seqInv_probe by blast
  show "\<forall>s t. seqInv cfg s \<longrightarrow> seqInv cfg (s\<lparr>out := out s @ [PrintTTL t]\<rparr>)"
    by (simp add: seqInv_out)
  show "\<forall>s. seqInv cfg s \<longrightarrow> seqInv cfg (s\<lparr>out := out s @ [PrintLn]\<rparr>)"
    by (simp add: seqInv_out)
qed

lemma sint_small: "0 \<le> n \<Longrightarrow> n \<le> 65536 \<Longrightarrow> sint (word_of_int n :: 32 word) = n"
  by (simp add: signed_of_int signed_take_bit_int_eq_self)

text \<open>A run builds at most 65536 packets: each one takes a valid port of its own.\<close>

lemma packets_bound: "length (packets (attempts (startTrace cfg env))) \<le> 65536"
proof -
  let ?r = "startTrace cfg env"
  have "seqInv cfg ?r" by (rule seqInv_startTrace)
  then have "portV ?r = portF cfg + seqNumV ?r"
    "seqNumV ?r = int (length (packets (attempts ?r)))"
    "0 < seqNumV ?r \<longrightarrow> 0 \<le> portF cfg \<and> portV ?r \<le> 65536"
    unfolding seqInv_def by blast+
  then show ?thesis by (cases "0 < seqNumV ?r") auto
qed

lemma packets_seqNum:
  "k < length (packets (attempts (startTrace cfg env))) \<Longrightarrow>
   sint (seqNum (packets (attempts (startTrace cfg env)) ! k)) = int k + 1"
proof -
  assume k: "k < length (packets (attempts (startTrace cfg env)))"
  have "seqInv cfg (startTrace cfg env)" by (rule seqInv_startTrace)
  with k have "seqNum (packets (attempts (startTrace cfg env)) ! k) = word_of_int (int k + 1)"
    unfolding seqInv_def by blast
  moreover have "int k + 1 \<le> 65536" using k packets_bound [of cfg env] by simp
  ultimately show ?thesis by (simp only: sint_small)
qed

text \<open>
  C8. The packets built in a run, in the order they are built, carry strictly
  increasing sequence numbers (read as the signed 32-bit values they are): a later
  packet's number is greater than every earlier one's. The conversion to
  \<open>int32\<close> never wraps, since a run builds at most 65536 packets.
\<close>

theorem seqNum_increasing:
  "i < j \<Longrightarrow> j < length (packets (attempts (startTrace cfg env))) \<Longrightarrow>
   sint (seqNum (packets (attempts (startTrace cfg env)) ! i)) <
   sint (seqNum (packets (attempts (startTrace cfg env)) ! j))"
  by (simp add: packets_seqNum)

theorem seqNum_increasing_witness:
  "(1 :: nat) < 3 \<and> 3 < length (packets (attempts (startTrace threeHops reached))) \<and>
   sint (seqNum (packets (attempts (startTrace threeHops reached)) ! 1)) <
   sint (seqNum (packets (attempts (startTrace threeHops reached)) ! 3))"
proof -
  have h1: "(1 :: nat) < 3" by simp
  have h2: "3 < length (packets (attempts (startTrace threeHops reached)))"
    by (simp add: reached_attempts packets_def)
  show ?thesis using h1 h2 seqNum_increasing [OF h1 h2] by simp
qed

text \<open>
  C2, as the code has it. The port handed to \<open>connectUDP\<close> at an attempt is the
  base port plus the number of earlier attempts of the run for which a packet was
  built (those whose \<open>connectUDP\<close> succeeded). So the port goes up by one with
  each probe built, across hops, and no two built probes share a port; an attempt
  whose \<open>connectUDP\<close> fails leaves its port to the next attempt.
\<close>

theorem port_of_attempt:
  "n < length (attempts (startTrace cfg env)) \<Longrightarrow>
   a_port (attempts (startTrace cfg env) ! n) =
     portF cfg + int (length (filter built (take n (attempts (startTrace cfg env)))))"
  using seqInv_startTrace [of cfg env] unfolding seqInv_def by blast

theorem port_of_attempt_witness:
  "3 < length (attempts (startTrace threeHops reached)) \<and>
   a_port (attempts (startTrace threeHops reached) ! 3) = portF threeHops + 3"
proof -
  have h: "3 < length (attempts (startTrace threeHops reached))"
    by (simp add: reached_attempts)
  have e: "length (filter built (take 3 (attempts (startTrace threeHops reached)))) = 3"
    by (simp add: reached_attempts built_def)
  show ?thesis using h port_of_attempt [OF h] by (simp add: e)
qed

text \<open>
  The claim C2 fails when a dial fails: with the first dial of the run failing,
  the first two attempts are both given the base port 34500, so the second
  attempt's port is not the base port plus one and the port is used twice.
\<close>

theorem port_reused_counterexample:
  "map a_port (attempts (startTrace oneHop firstDialFails)) = [34500, 34500]"
  by (simp add: run_simps firstDialFails_def)

section \<open>Sockets\<close>

text \<open>
  C3, as the code has it. The program never closes a probe socket: when the run
  ends, one UDP socket is still open for every attempt whose dial succeeded.
\<close>

theorem sockets_never_closed:
  "length (sockets (startTrace cfg env)) =
     length (filter dialed (attempts (startTrace cfg env)))"
  by (rule startTrace_invariant
        [where P = "\<lambda>s. length (sockets s) = length (filter dialed (attempts s))"])
     (simp_all add: probe_attempts probe_sockets)

text \<open>
  The claim C3 fails on a run of two probes: both sockets are open when the run
  ends, where the claim allows one at most.
\<close>

theorem sockets_open_counterexample:
  "sockets (startTrace oneHop silent) =
     [\<lparr>raddrPort = 34500, connTTL = Some 1\<rparr>, \<lparr>raddrPort = 34501, connTTL = Some 1\<rparr>]"
  by (simp add: run_simps silent_def)

section \<open>Timeout\<close>

text \<open>
  C10. Whatever the flags, the timer of every probe that was written is armed
  with 5 seconds (5000000000 ns), and no timer is armed for a probe that was not
  written: the timeout does not depend on the configuration.
\<close>

theorem timeout_fixed:
  "a \<in> set (attempts (startTrace cfg env)) \<Longrightarrow>
   a_timer a =
     (case a_result a of
        TimedOut \<Rightarrow> Some 5000000000 | Answered pInfo \<Rightarrow> Some 5000000000 | _ \<Rightarrow> None) \<and>
   probeTimeout * Second = 5000000000"
proof -
  assume a: "a \<in> set (attempts (startTrace cfg env))"
  have "\<forall>a \<in> set (attempts (startTrace cfg env)).
      a_timer a = (case a_result a of
        TimedOut \<Rightarrow> Some 5000000000 | Answered pInfo \<Rightarrow> Some 5000000000 | _ \<Rightarrow> None)"
    by (rule attempts_invariant) (rule probeAttempt_timer)
  with a show ?thesis by (simp add: probeTimeout_def Second_def)
qed

theorem timeout_fixed_witness:
  "attempts (startTrace oneHop silent) ! 0 \<in> set (attempts (startTrace oneHop silent)) \<and>
   a_result (attempts (startTrace oneHop silent) ! 0) = TimedOut \<and>
   a_timer (attempts (startTrace oneHop silent) ! 0) = Some 5000000000"
proof -
  have h: "attempts (startTrace oneHop silent) ! 0 \<in> set (attempts (startTrace oneHop silent))"
    by (simp add: silent_attempts)
  show ?thesis using h timeout_fixed [OF h] by (simp add: silent_attempts)
qed

section \<open>Hops and the end of the trace\<close>





section \<open>The responder's identity\<close>

lemma out_router_prints:
  "filter isRouterIP (out (startTrace cfg env)) =
     concat (map (\<lambda>a. filter isRouterIP (a_out a)) (attempts (startTrace cfg env)))"
  by (rule startTrace_invariant
        [where P = "\<lambda>s. filter isRouterIP (out s) =
           concat (map (\<lambda>a. filter isRouterIP (a_out a)) (attempts s))"])
     (simp_all add: probe_attempts probe_out isRouterIP_def)

text \<open>
  C1, as the code has it. The responder's identity (its name if one was found,
  else its address, then the address in parentheses) is printed by a probe
  exactly when that probe is the first of its hop (index 0) and is answered
  within the timeout; a probe with another index, or one that fails or times out,
  prints none. Every identity in the output of a run is one of these.
\<close>

theorem identity_on_first_probe:
  "a \<in> set (attempts (startTrace cfg env)) \<Longrightarrow>
   filter isRouterIP (a_out a) =
     (case a_result a of
        Answered pInfo \<Rightarrow>
          if a_pro a = 0
          then [PrintRouterIP (if routerName pInfo \<noteq> [] then routerName pInfo
                               else ipString (routerIP pInfo)) (ipString (routerIP pInfo))]
          else []
      | _ \<Rightarrow> []) \<and>
   filter isRouterIP (out (startTrace cfg env)) =
     concat (map (\<lambda>a. filter isRouterIP (a_out a)) (attempts (startTrace cfg env)))"
proof -
  assume a: "a \<in> set (attempts (startTrace cfg env))"
  have "\<forall>a \<in> set (attempts (startTrace cfg env)).
      filter isRouterIP (a_out a) =
        (case a_result a of
           Answered pInfo \<Rightarrow> if a_pro a = 0 then [printRouterIP pInfo] else []
         | _ \<Rightarrow> [])"
    by (rule attempts_invariant) (rule probeAttempt_out)
  with a show ?thesis
    by (simp add: out_router_prints printRouterIP_def Let_def split: result.splits)
qed

theorem identity_on_first_probe_witness:
  "attempts (startTrace threeHops reached) ! 2 \<in> set (attempts (startTrace threeHops reached)) \<and>
   a_result (attempts (startTrace threeHops reached) ! 2) = Answered destination \<and>
   a_pro (attempts (startTrace threeHops reached) ! 2) = 0 \<and>
   filter isRouterIP (a_out (attempts (startTrace threeHops reached) ! 2)) =
     [PrintRouterIP ''example.org'' ''93.184.216.34''] \<and>
   filter isRouterIP (out (startTrace threeHops reached)) =
     [PrintRouterIP ''10.0.0.1'' ''10.0.0.1'', PrintRouterIP ''example.org'' ''93.184.216.34'']"
proof -
  have h: "attempts (startTrace threeHops reached) ! 2 \<in> set (attempts (startTrace threeHops reached))"
    by (simp add: reached_attempts)
  have r: "a_result (attempts (startTrace threeHops reached) ! 2) = Answered destination"
    "a_pro (attempts (startTrace threeHops reached) ! 2) = 0"
    by (simp_all add: reached_attempts)
  have o: "filter isRouterIP (out (startTrace threeHops reached)) =
     [PrintRouterIP ''10.0.0.1'' ''10.0.0.1'', PrintRouterIP ''example.org'' ''93.184.216.34'']"
    by (simp add: reached_out isRouterIP_def)
  show ?thesis
    using h identity_on_first_probe [OF h]
    by (simp add: r o destination_def ipString_destination)
qed

text \<open>
  The claim C1 fails when the first probe of a hop is lost: on a hop of two
  probes where probe 0 times out and probe 1 is answered by the router 10.0.0.1,
  the line of the hop holds the TTL, the timeout mark and a latency, and no
  identity.
\<close>

theorem identity_missing_counterexample:
  "map a_result (attempts (startTrace oneHop firstLost)) = [TimedOut, Answered router] \<and>
   out (startTrace oneHop firstLost) = [PrintTTL 1, PrintStar, PrintLatency 7, PrintLn]"
  by (simp add: run_simps firstLost_def router_def)

end
